theory Spec2Isabelle
  imports Main "HOL-Library.Log_Nat" "HOL-Library.AList" "HOL-Library.Multiset"
begin

section \<open>Python floats\<close>

text \<open>
  A Python \<^verbatim>\<open>float\<close> is an IEEE 754 binary64 number.  A finite float is represented by
  the rational number it denotes; the two zeros are identified (no operation of the
  program tells them apart: comparisons treat them as equal and a division by either
  raises).  \<open>round_to_double\<close> is the rounding to the nearest binary64 value, ties to
  even, with gradual underflow and overflow to an infinity: the result of a division
  and of reading a decimal, which IEEE 754 and CPython round correctly.
\<close>

datatype pyfloat = Finite rat | PInf | NInf | NaN

definition pow2 :: "int \<Rightarrow> rat" where
  "pow2 k = (if 0 \<le> k then 2 ^ nat k else 1 / 2 ^ nat (- k))"

definition round_half_even :: "rat \<Rightarrow> int" where
  "round_half_even x =
     (let n = \<lfloor>x\<rfloor>; d = x - of_int n
      in if d < 1 / 2 then n
         else if 1 / 2 < d then n + 1
         else if even n then n else n + 1)"

text \<open>\<open>ilog2 a\<close> is \<open>\<lfloor>log\<^sub>2 a\<rfloor>\<close> for a positive rational \<open>a\<close>.\<close>

definition ilog2 :: "rat \<Rightarrow> int" where
  "ilog2 a = (if 1 \<le> a then bitlen \<lfloor>a\<rfloor> - 1 else - bitlen (\<lceil>1 / a\<rceil> - 1))"

definition round_to_double :: "rat \<Rightarrow> pyfloat" where
  "round_to_double x =
     (if x = 0 then Finite 0
      else
        let a = \<bar>x\<bar>;
            e = max (ilog2 a) (- 1022);
            ulp = pow2 (e - 52);
            m = of_int (round_half_even (a / ulp)) * ulp
        in if pow2 1024 \<le> m then (if 0 < x then PInf else NInf)
           else Finite (if 0 < x then m else - m))"

text \<open>The comparisons \<^verbatim>\<open><\<close>, \<^verbatim>\<open>>\<close> and \<^verbatim>\<open>>=\<close> of floats: every comparison with NaN is false.\<close>

fun py_lt :: "pyfloat \<Rightarrow> pyfloat \<Rightarrow> bool" where
  "py_lt NaN _ = False"
| "py_lt _ NaN = False"
| "py_lt (Finite a) (Finite b) = (a < b)"
| "py_lt (Finite _) PInf = True"
| "py_lt (Finite _) NInf = False"
| "py_lt PInf _ = False"
| "py_lt NInf NInf = False"
| "py_lt NInf _ = True"

definition py_gt :: "pyfloat \<Rightarrow> pyfloat \<Rightarrow> bool" where
  "py_gt a b = py_lt b a"

definition py_ge :: "pyfloat \<Rightarrow> pyfloat \<Rightarrow> bool" where
  "py_ge a b = (a \<noteq> NaN \<and> b \<noteq> NaN \<and> \<not> py_lt a b)"

section \<open>Errors\<close>

text \<open>
  The exceptions the program can raise: pydantic's \<^verbatim>\<open>ValidationError\<close> with the names of
  the offending fields, FastAPI's \<^verbatim>\<open>HTTPException\<close> with its status code and detail, and
  the two arithmetic exceptions of float operations.
\<close>

datatype error =
    ValidationError "string list"
  | HTTPException nat string
  | ZeroDivisionError
  | OverflowError

text \<open>
  \<^verbatim>\<open>x ** 2\<close> on a float is CPython's \<^verbatim>\<open>float_pow\<close>.  It answers NaN, the infinities, zero
  and 1.0 itself, and hands the absolute value of every other float to the \<^verbatim>\<open>pow\<close> of the
  C library.  That function is not part of the program, and the C standard does not fix
  its last bit (a library may return either neighbour of the exact square): it is the
  parameter \<open>pw\<close> of every definition that computes a bmi, \<open>pw x\<close> being what
  \<^verbatim>\<open>pow(x, 2.0)\<close> returns.  An infinite result is an overflow, which \<^verbatim>\<open>float_pow\<close> raises
  as \<^verbatim>\<open>OverflowError\<close>; a result that underflowed to zero is returned.
\<close>

type_synonym libm_pow = "rat \<Rightarrow> pyfloat"

fun float_pow2 :: "libm_pow \<Rightarrow> pyfloat \<Rightarrow> error + pyfloat" where
  "float_pow2 pw NaN = Inr NaN"
| "float_pow2 pw PInf = Inr PInf"
| "float_pow2 pw NInf = Inr PInf"
| "float_pow2 pw (Finite x) =
     (if x = 0 then Inr (Finite 0)
      else if \<bar>x\<bar> = 1 then Inr (Finite 1)
      else case pw \<bar>x\<bar> of
             Finite y \<Rightarrow> Inr (Finite y)
           | NaN \<Rightarrow> Inr NaN
           | _ \<Rightarrow> Inl OverflowError)"

text \<open>
  A \<^verbatim>\<open>pow\<close> that rounds the exact square to the nearest float.  The examples are computed
  with it: at their heights (1.7, 1.6, 2.0 and \<^verbatim>\<open>1e-200\<close>) the \<^verbatim>\<open>pow\<close> of glibc returns the
  nearest float as well.
\<close>

definition exact_pow2 :: libm_pow where
  "exact_pow2 x = round_to_double (x * x)"

text \<open>
  \<^verbatim>\<open>a / b\<close> on floats (CPython's \<^verbatim>\<open>float_div\<close>): a zero divisor raises
  \<^verbatim>\<open>ZeroDivisionError\<close>; otherwise the IEEE quotient, which may be an infinity or NaN.
\<close>

fun float_truediv :: "pyfloat \<Rightarrow> pyfloat \<Rightarrow> error + pyfloat" where
  "float_truediv a (Finite b) =
     (if b = 0 then Inl ZeroDivisionError
      else case a of
             Finite x \<Rightarrow> Inr (round_to_double (x / b))
           | PInf \<Rightarrow> Inr (if 0 < b then PInf else NInf)
           | NInf \<Rightarrow> Inr (if 0 < b then NInf else PInf)
           | NaN \<Rightarrow> Inr NaN)"
| "float_truediv a NaN = Inr NaN"
| "float_truediv (Finite x) _ = Inr (Finite 0)"
| "float_truediv _ _ = Inr NaN"

text \<open>
  \<^verbatim>\<open>round(x, 2)\<close> on a float: NaN and the infinities round to themselves; a finite float
  is rounded, from its exact value and ties to even, to two decimal places, and the
  decimal result is read back as the nearest float.
\<close>

fun py_round2 :: "pyfloat \<Rightarrow> pyfloat" where
  "py_round2 (Finite x) = round_to_double (of_int (round_half_even (x * 100)) / 100)"
| "py_round2 x = x"

section \<open>The pydantic models\<close>

record Patient =
  pid :: string
  name :: string
  city :: string
  age :: int
  gender :: string
  height :: pyfloat
  weight :: pyfloat

text \<open>The computed field \<^verbatim>\<open>bmi\<close>: \<^verbatim>\<open>round(self.weight/(self.height**2),2)\<close>.\<close>

definition bmi :: "libm_pow \<Rightarrow> Patient \<Rightarrow> error + pyfloat" where
  "bmi pw p =
     (case float_pow2 pw (height p) of
        Inl e \<Rightarrow> Inl e
      | Inr h2 \<Rightarrow>
          (case float_truediv (weight p) h2 of
             Inl e \<Rightarrow> Inl e
           | Inr q \<Rightarrow> Inr (py_round2 q)))"

text \<open>The \<^verbatim>\<open>if\<close>/\<^verbatim>\<open>elif\<close> chain of \<^verbatim>\<open>verdict\<close> on a computed bmi.\<close>

definition classify :: "pyfloat \<Rightarrow> string" where
  "classify b =
     (if py_lt b (Finite (37 / 2)) then ''Underweight''
      else if py_ge b (Finite (37 / 2)) \<and> py_lt b (Finite 25) then ''Normal''
      else if py_ge b (Finite 25) \<and> py_lt b (Finite 30) then ''Overweight''
      else ''Obese'')"

text \<open>The computed field \<^verbatim>\<open>verdict\<close>; it reads \<^verbatim>\<open>self.bmi\<close>, which may raise.\<close>

definition verdict :: "libm_pow \<Rightarrow> Patient \<Rightarrow> error + string" where
  "verdict pw p = (case bmi pw p of Inl e \<Rightarrow> Inl e | Inr b \<Rightarrow> Inr (classify b))"


text \<open>
  The keyword arguments from which a \<^verbatim>\<open>Patient\<close> is built (a request body, or the stored
  dictionary in \<^verbatim>\<open>Patient(**existing_patient_info)\<close>), taken in the declared field types.
  \<open>None\<close> is a key that is absent or \<^verbatim>\<open>null\<close>; pydantic's conversions between JSON types
  are outside the model.
\<close>

record PatientArgs =
  arg_id :: "string option"
  arg_name :: "string option"
  arg_city :: "string option"
  arg_age :: "int option"
  arg_gender :: "string option"
  arg_height :: "pyfloat option"
  arg_weight :: "pyfloat option"

text \<open>One field of a model: the field is named in the error when it is missing or
  violates its constraint.\<close>

definition field_errors :: "string \<Rightarrow> 'a option \<Rightarrow> ('a \<Rightarrow> bool) \<Rightarrow> string list" where
  "field_errors k v ok = (case v of None \<Rightarrow> [k] | Some x \<Rightarrow> if ok x then [] else [k])"

text \<open>
  The field declarations of \<^verbatim>\<open>Patient\<close>: three strings without any constraint,
  \<^verbatim>\<open>age\<close> with \<^verbatim>\<open>gt=0, lt=120\<close>, \<^verbatim>\<open>gender\<close> a literal of three values, \<^verbatim>\<open>height\<close> and
  \<^verbatim>\<open>weight\<close> with \<^verbatim>\<open>gt=0\<close>.
\<close>

definition Patient_errors :: "PatientArgs \<Rightarrow> string list" where
  "Patient_errors d =
     field_errors ''id'' (arg_id d) (\<lambda>_. True) @
     field_errors ''name'' (arg_name d) (\<lambda>_. True) @
     field_errors ''city'' (arg_city d) (\<lambda>_. True) @
     field_errors ''age'' (arg_age d) (\<lambda>a. 0 < a \<and> a < 120) @
     field_errors ''gender'' (arg_gender d) (\<lambda>g. g \<in> set [''male'', ''female'', ''others'']) @
     field_errors ''height'' (arg_height d) (\<lambda>h. py_gt h (Finite 0)) @
     field_errors ''weight'' (arg_weight d) (\<lambda>w. py_gt w (Finite 0))"

definition Patient_validate :: "PatientArgs \<Rightarrow> error + Patient" where
  "Patient_validate d =
     (if Patient_errors d = []
      then Inr \<lparr>pid = the (arg_id d), name = the (arg_name d), city = the (arg_city d),
                age = the (arg_age d), gender = the (arg_gender d),
                height = the (arg_height d), weight = the (arg_weight d)\<rparr>
      else Inl (ValidationError (Patient_errors d)))"

text \<open>
  A \<^verbatim>\<open>PatientUpdate\<close>: every field is optional with default \<^verbatim>\<open>None\<close>, and the model
  remembers which fields the caller has set.  A field is \<open>None\<close> when it is unset,
  \<open>Some None\<close> when it is set to \<^verbatim>\<open>null\<close>, and \<open>Some (Some v)\<close> when it is set to \<open>v\<close>.
\<close>

record PatientUpdate =
  upd_name :: "string option option"
  upd_city :: "string option option"
  upd_age :: "int option option"
  upd_gender :: "string option option"
  upd_height :: "pyfloat option option"
  upd_weight :: "pyfloat option option"

definition optional_errors :: "string \<Rightarrow> 'a option option \<Rightarrow> ('a \<Rightarrow> bool) \<Rightarrow> string list" where
  "optional_errors k v ok = (case v of Some (Some x) \<Rightarrow> if ok x then [] else [k] | _ \<Rightarrow> [])"

text \<open>
  The field declarations of \<^verbatim>\<open>PatientUpdate\<close>: \<^verbatim>\<open>age\<close> with \<^verbatim>\<open>gt=0\<close> only, \<^verbatim>\<open>gender\<close> a
  literal of two values, \<^verbatim>\<open>height\<close> and \<^verbatim>\<open>weight\<close> with \<^verbatim>\<open>gt=0\<close>.
\<close>

definition PatientUpdate_errors :: "PatientUpdate \<Rightarrow> string list" where
  "PatientUpdate_errors u =
     optional_errors ''name'' (upd_name u) (\<lambda>_. True) @
     optional_errors ''city'' (upd_city u) (\<lambda>_. True) @
     optional_errors ''age'' (upd_age u) (\<lambda>a. 0 < a) @
     optional_errors ''gender'' (upd_gender u) (\<lambda>g. g \<in> set [''male'', ''female'']) @
     optional_errors ''height'' (upd_height u) (\<lambda>h. py_gt h (Finite 0)) @
     optional_errors ''weight'' (upd_weight u) (\<lambda>w. py_gt w (Finite 0))"

definition PatientUpdate_validate :: "PatientUpdate \<Rightarrow> error + PatientUpdate" where
  "PatientUpdate_validate u =
     (if PatientUpdate_errors u = [] then Inr u
      else Inl (ValidationError (PatientUpdate_errors u)))"

section \<open>The store\<close>

text \<open>
  The dictionary kept for one patient in \<^verbatim>\<open>patients.json\<close>: the fields of the model
  without \<^verbatim>\<open>id\<close>, and the two computed fields.
\<close>

record patient_info =
  info_name :: string
  info_city :: string
  info_age :: int
  info_gender :: string
  info_height :: pyfloat
  info_weight :: pyfloat
  info_bmi :: pyfloat
  info_verdict :: string

text \<open>
  The contents of \<^verbatim>\<open>patients.json\<close>: a dictionary from patient id to \<open>patient_info\<close>, in
  insertion order.  An endpoint is a function from the dictionary that \<^verbatim>\<open>load_data\<close>
  returns to its outcome and the dictionary that it leaves behind (the one it hands to
  \<^verbatim>\<open>save_data\<close>, or the loaded one when it writes nothing); how the file carries a
  dictionary from \<^verbatim>\<open>save_data\<close> to the next \<^verbatim>\<open>load_data\<close> is the subject of the section on
  the file.  \<^verbatim>\<open>data[k] = v\<close> is \<open>AList.update\<close>, \<^verbatim>\<open>del data[k]\<close> is \<open>AList.delete\<close>,
  \<^verbatim>\<open>data[k]\<close> is \<open>map_of\<close>.
\<close>

type_synonym store = "(string \<times> patient_info) list"

text \<open>\<^verbatim>\<open>model_dump\<close> of a \<^verbatim>\<open>Patient\<close> without \<^verbatim>\<open>id\<close>: the fields and the computed fields.\<close>

definition model_dump :: "libm_pow \<Rightarrow> Patient \<Rightarrow> error + patient_info" where
  "model_dump pw p =
     (case bmi pw p of
        Inl e \<Rightarrow> Inl e
      | Inr b \<Rightarrow>
          (case verdict pw p of
             Inl e \<Rightarrow> Inl e
           | Inr v \<Rightarrow>
               Inr \<lparr>info_name = name p, info_city = city p, info_age = age p,
                    info_gender = gender p, info_height = height p,
                    info_weight = weight p, info_bmi = b, info_verdict = v\<rparr>))"

section \<open>The endpoints\<close>

definition create_patient_data ::
  "libm_pow \<Rightarrow> store \<Rightarrow> Patient \<Rightarrow> (error + string) \<times> store" where
  "create_patient_data pw data patient =
     (if pid patient \<in> set (map fst data)
      then (Inl (HTTPException 400 ''Patient ID already exists''), data)
      else case model_dump pw patient of
             Inl e \<Rightarrow> (Inl e, data)
           | Inr info \<Rightarrow>
               (Inr ''Patient data created successfully'',
                AList.update (pid patient) info data))"

text \<open>
  The loop \<^verbatim>\<open>existing_patient_info[key] = value\<close> over the set fields of the update,
  followed by \<^verbatim>\<open>existing_patient_info['id'] = p_id\<close>.  The stored \<^verbatim>\<open>bmi\<close> and \<^verbatim>\<open>verdict\<close>
  are passed on as well; they are no fields of \<^verbatim>\<open>Patient\<close>, which ignores them.
\<close>

definition overwrite :: "'a \<Rightarrow> 'a option option \<Rightarrow> 'a option" where
  "overwrite existing v = (case v of None \<Rightarrow> Some existing | Some x \<Rightarrow> x)"

definition merge_update :: "patient_info \<Rightarrow> PatientUpdate \<Rightarrow> string \<Rightarrow> PatientArgs" where
  "merge_update existing u p_id =
     \<lparr>arg_id = Some p_id,
      arg_name = overwrite (info_name existing) (upd_name u),
      arg_city = overwrite (info_city existing) (upd_city u),
      arg_age = overwrite (info_age existing) (upd_age u),
      arg_gender = overwrite (info_gender existing) (upd_gender u),
      arg_height = overwrite (info_height existing) (upd_height u),
      arg_weight = overwrite (info_weight existing) (upd_weight u)\<rparr>"

definition update_patient_data ::
  "libm_pow \<Rightarrow> store \<Rightarrow> PatientUpdate \<Rightarrow> string \<Rightarrow> (error + string) \<times> store" where
  "update_patient_data pw data patient_update p_id =
     (case map_of data p_id of
        None \<Rightarrow> (Inl (HTTPException 404 ''Patient ID not Found''), data)
      | Some existing_patient_info \<Rightarrow>
          (case Patient_validate (merge_update existing_patient_info patient_update p_id) of
             Inl e \<Rightarrow> (Inl e, data)
           | Inr patient_pydantic_obj \<Rightarrow>
               (case model_dump pw patient_pydantic_obj of
                  Inl e \<Rightarrow> (Inl e, data)
                | Inr info \<Rightarrow>
                    (Inr ''Patient data updated successfully'',
                     AList.update p_id info data))))"

definition delete_patient_data :: "store \<Rightarrow> string \<Rightarrow> (error + string) \<times> store" where
  "delete_patient_data data p_id =
     (if p_id \<notin> set (map fst data)
      then (Inl (HTTPException 404 ''Patient ID not found''), data)
      else (Inr ''Patient data deleted successfully'', AList.delete p_id data))"

text \<open>
  FastAPI validates the request body against the parameter's model before it calls the
  endpoint; a body that fails is answered with the validation error and the endpoint
  does not run.
\<close>

definition post_patient ::
  "libm_pow \<Rightarrow> store \<Rightarrow> PatientArgs \<Rightarrow> (error + string) \<times> store" where
  "post_patient pw data body =
     (case Patient_validate body of
        Inl e \<Rightarrow> (Inl e, data)
      | Inr patient \<Rightarrow> create_patient_data pw data patient)"

definition put_patient_edit ::
  "libm_pow \<Rightarrow> store \<Rightarrow> PatientUpdate \<Rightarrow> string \<Rightarrow> (error + string) \<times> store" where
  "put_patient_edit pw data body p_id =
     (case PatientUpdate_validate body of
        Inl e \<Rightarrow> (Inl e, data)
      | Inr patient_update \<Rightarrow> update_patient_data pw data patient_update p_id)"


subsection \<open>Sorting\<close>

text \<open>
  \<^verbatim>\<open>sorted(xs, key=f, reverse=r)\<close> is a stable sort that compares keys with \<^verbatim>\<open><\<close> only;
  with \<^verbatim>\<open>reverse=True\<close> the list is reversed, sorted and reversed again.  On keys that
  \<^verbatim>\<open><\<close> orders totally every stable sort returns the same list, which the insertion
  sort below computes.  When a key is NaN, \<^verbatim>\<open><\<close> is no total order on the keys, and which
  permutation of two or more elements \<^verbatim>\<open>sorted\<close> returns depends on the steps of the
  implementation's algorithm: the language does not determine it, and \<open>sorted_py\<close> has no
  value there.
\<close>

fun insort_lt :: "('a \<Rightarrow> pyfloat) \<Rightarrow> 'a \<Rightarrow> 'a list \<Rightarrow> 'a list" where
  "insort_lt f x [] = [x]"
| "insort_lt f x (y # ys) =
     (if py_lt (f y) (f x) then y # insort_lt f x ys else x # y # ys)"

definition stable_sort :: "('a \<Rightarrow> pyfloat) \<Rightarrow> 'a list \<Rightarrow> 'a list" where
  "stable_sort f xs = foldr (insort_lt f) xs []"




subsection \<open>Requests\<close>

datatype request =
    Post PatientArgs
  | Put string PatientUpdate
  | Delete string

fun serve :: "libm_pow \<Rightarrow> store \<Rightarrow> request \<Rightarrow> store" where
  "serve pw data (Post body) = snd (post_patient pw data body)"
| "serve pw data (Put p_id body) = snd (put_patient_edit pw data body p_id)"
| "serve pw data (Delete p_id) = snd (delete_patient_data data p_id)"

section \<open>Properties of records and stores\<close>

text \<open>The constraints of \<^verbatim>\<open>Patient\<close> on the fields of a stored record.\<close>

definition constraints_ok :: "patient_info \<Rightarrow> bool" where
  "constraints_ok r \<longleftrightarrow>
     0 < info_age r \<and> info_age r < 120 \<and>
     info_gender r \<in> set [''male'', ''female'', ''others''] \<and>
     py_gt (info_height r) (Finite 0) \<and> py_gt (info_weight r) (Finite 0)"

text \<open>The stored record read back as the model it was dumped from.\<close>

definition info_patient :: "string \<Rightarrow> patient_info \<Rightarrow> Patient" where
  "info_patient p_id r =
     \<lparr>pid = p_id, name = info_name r, city = info_city r, age = info_age r,
      gender = info_gender r, height = info_height r, weight = info_weight r\<rparr>"

text \<open>The derived fields of a stored record agree with its height and weight.\<close>

definition derived_ok :: "libm_pow \<Rightarrow> patient_info \<Rightarrow> bool" where
  "derived_ok pw r \<longleftrightarrow>
     bmi pw (info_patient [] r) = Inr (info_bmi r) \<and>
     info_verdict r = classify (info_bmi r)"

definition store_ok :: "libm_pow \<Rightarrow> store \<Rightarrow> bool" where
  "store_ok pw data \<longleftrightarrow>
     distinct (map fst data) \<and>
     list_all (\<lambda>(k, r). constraints_ok r \<and> derived_ok pw r) data"

subsection \<open>The derived fields as the specification states them\<close>

text \<open>
  Written from the specification (data model and 4.1), not from the code:
  \<^verbatim>\<open>bmi = round(weight / height^2, 2)\<close>, with the square, the quotient and the rounding to
  two decimals of Python floats.  The formula has no value where the square overflows
  or is zero.
\<close>

definition spec_bmi :: "libm_pow \<Rightarrow> pyfloat \<Rightarrow> pyfloat \<Rightarrow> pyfloat option" where
  "spec_bmi pw h w =
     (case float_pow2 pw h of
        Inl _ \<Rightarrow> None
      | Inr h2 \<Rightarrow>
          (case float_truediv w h2 of
             Inl _ \<Rightarrow> None
           | Inr q \<Rightarrow> Some (py_round2 q)))"

text \<open>
  The four brackets of the specification, on the number a bmi denotes:
  \<^verbatim>\<open>bmi < 18.5\<close> Underweight, \<^verbatim>\<open>18.5 <= bmi < 25\<close> Normal, \<^verbatim>\<open>25 <= bmi < 30\<close> Overweight,
  \<^verbatim>\<open>bmi >= 30\<close> Obese.  An infinity lies in the bracket on its side; NaN is no number and
  lies in no bracket, so the brackets ask nothing of its verdict.
\<close>

fun spec_verdict_ok :: "pyfloat \<Rightarrow> string \<Rightarrow> bool" where
  "spec_verdict_ok (Finite b) v \<longleftrightarrow>
     b < 37 / 2 \<and> v = ''Underweight'' \<or>
     37 / 2 \<le> b \<and> b < 25 \<and> v = ''Normal'' \<or>
     25 \<le> b \<and> b < 30 \<and> v = ''Overweight'' \<or>
     30 \<le> b \<and> v = ''Obese''"
| "spec_verdict_ok PInf v \<longleftrightarrow> v = ''Obese''"
| "spec_verdict_ok NInf v \<longleftrightarrow> v = ''Underweight''"
| "spec_verdict_ok NaN v \<longleftrightarrow> True"

definition spec_derived :: "libm_pow \<Rightarrow> patient_info \<Rightarrow> bool" where
  "spec_derived pw r \<longleftrightarrow>
     spec_bmi pw (info_height r) (info_weight r) = Some (info_bmi r) \<and>
     spec_verdict_ok (info_bmi r) (info_verdict r)"

definition store_inv :: "libm_pow \<Rightarrow> store \<Rightarrow> bool" where
  "store_inv pw data \<longleftrightarrow> list_all (\<lambda>(k, r). spec_derived pw r) data"

subsection \<open>The order of a sorted answer as the specification states it\<close>



section \<open>The file patients.json\<close>

























section \<open>Examples\<close>

text \<open>The patients of the two worked examples, and a \<^verbatim>\<open>PatientUpdate\<close> with no field set.\<close>

definition patient_170_70 :: Patient where
  "patient_170_70 =
     \<lparr>pid = ''P001'', name = ''Asha'', city = ''Pune'', age = 30, gender = ''female'',
      height = round_to_double (170 / 100), weight = round_to_double 70\<rparr>"

definition patient_160_45 :: Patient where
  "patient_160_45 =
     \<lparr>pid = ''P002'', name = ''Ravi'', city = ''Delhi'', age = 41, gender = ''male'',
      height = round_to_double (160 / 100), weight = round_to_double 45\<rparr>"

definition no_update :: PatientUpdate where
  "no_update =
     \<lparr>upd_name = None, upd_city = None, upd_age = None, upd_gender = None,
      upd_height = None, upd_weight = None\<rparr>"

text \<open>A store that holds the first example patient.\<close>

definition info_170_70 :: patient_info where
  "info_170_70 =
     \<lparr>info_name = ''Asha'', info_city = ''Pune'', info_age = 30, info_gender = ''female'',
      info_height = round_to_double (170 / 100), info_weight = round_to_double 70,
      info_bmi = round_to_double (2422 / 100), info_verdict = ''Normal''\<rparr>"

definition store_1 :: store where
  "store_1 = [(''P001'', info_170_70)]"

text \<open>Two request bodies: one with empty strings, one with an age of 150.\<close>

definition body_empty_strings :: PatientArgs where
  "body_empty_strings =
     \<lparr>arg_id = Some [], arg_name = Some [], arg_city = Some [], arg_age = Some 30,
      arg_gender = Some ''male'', arg_height = Some (Finite 2), arg_weight = Some (Finite 80)\<rparr>"

definition body_age_150 :: PatientArgs where
  "body_age_150 =
     \<lparr>arg_id = Some ''P003'', arg_name = Some ''Meera'', arg_city = Some ''Kochi'',
      arg_age = Some 150, arg_gender = Some ''female'', arg_height = Some (Finite 2),
      arg_weight = Some (Finite 80)\<rparr>"

text \<open>
  \<open>field_merged old v new\<close>: the merged value of a field is the old one when the update
  leaves the field unset, and the value the update sets otherwise.
\<close>

definition field_merged :: "'a \<Rightarrow> 'a option option \<Rightarrow> 'a \<Rightarrow> bool" where
  "field_merged old v new \<longleftrightarrow> (case v of None \<Rightarrow> new = old | Some x \<Rightarrow> x = Some new)"

text \<open>Three updates: of the age to 150 and to 120, and of the weight to 80.0.\<close>

definition update_age_150 :: PatientUpdate where
  "update_age_150 = no_update\<lparr>upd_age := Some (Some 150)\<rparr>"

definition update_age_120 :: PatientUpdate where
  "update_age_120 = no_update\<lparr>upd_age := Some (Some 120)\<rparr>"

definition update_weight_80 :: PatientUpdate where
  "update_weight_80 = no_update\<lparr>upd_weight := Some (Some (Finite 80))\<rparr>"








text \<open>
  A \<^verbatim>\<open>pow\<close> that returns for the float 1.2704 the float just below the one nearest to the
  exact square (with such a C library CPython gives \<^verbatim>\<open>1.2704**2\<close> as
  \<^verbatim>\<open>0x1.9d299c05af975p+0\<close>), and the nearest float everywhere else; a request body with
  the height 1.2704 and the weight 48.4094152192, and the record stored for it.
\<close>

definition pow_1ulp :: libm_pow where
  "pow_1ulp x =
     (if x = 2860686483305739 / 2251799813685248
      then Finite (7268432216783221 / 4503599627370496)
      else exact_pow2 x)"

definition body_12704 :: PatientArgs where
  "body_12704 =
     \<lparr>arg_id = Some ''P005'', arg_name = Some ''Kiran'', arg_city = Some ''Surat'',
      arg_age = Some 52, arg_gender = Some ''male'',
      arg_height = Some (Finite (2860686483305739 / 2251799813685248)),
      arg_weight = Some (Finite (3406509755350199 / 70368744177664))\<rparr>"

definition info_12704 :: patient_info where
  "info_12704 =
     \<lparr>info_name = ''Kiran'', info_city = ''Surat'', info_age = 52, info_gender = ''male'',
      info_height = Finite (2860686483305739 / 2251799813685248),
      info_weight = Finite (3406509755350199 / 70368744177664),
      info_bmi = Finite 30, info_verdict = ''Obese''\<rparr>"



text \<open>A request body with the height \<^verbatim>\<open>1e-200\<close>.\<close>

definition body_tiny_height :: PatientArgs where
  "body_tiny_height =
     \<lparr>arg_id = Some ''P004'', arg_name = Some ''Tara'', arg_city = Some ''Agra'',
      arg_age = Some 30, arg_gender = Some ''female'',
      arg_height = Some (round_to_double (1 / 10 ^ 200)), arg_weight = Some (Finite 70)\<rparr>"

section \<open>Evaluating float operations\<close>

lemma bitlen_numeral:
  "bitlen (numeral (Num.Bit0 n)) = bitlen (numeral n) + 1"
  "bitlen (numeral (Num.Bit1 n)) = bitlen (numeral n) + 1"
  by (subst compute_bitlen, simp)+

lemma bitlen_one: "bitlen 1 = 1"
  by (subst compute_bitlen) simp

lemma floor_rat_numeral:
  "\<lfloor>numeral a / numeral b :: rat\<rfloor> = numeral a div numeral b"
  "\<lfloor>1 / numeral b :: rat\<rfloor> = 1 div numeral b"
  using floor_divide_of_int_eq [of "numeral a" "numeral b", where ?'a = rat]
    floor_divide_of_int_eq [of 1 "numeral b", where ?'a = rat]
  by simp_all

lemma ceiling_rat_numeral:
  "\<lceil>numeral a / numeral b :: rat\<rceil> = - ((- numeral a) div numeral b)"
  "\<lceil>1 / numeral b :: rat\<rceil> = - ((- 1) div numeral b)"
  using floor_divide_of_int_eq [of "- numeral a" "numeral b", where ?'a = rat]
    floor_divide_of_int_eq [of "- 1" "numeral b", where ?'a = rat]
  by (simp_all add: ceiling_def)

lemmas float_eval =
  round_to_double_def ilog2_def pow2_def round_half_even_def Let_def
  bitlen_numeral bitlen_one floor_rat_numeral ceiling_rat_numeral

lemma pow2_pos: "0 < pow2 k"
  by (simp add: pow2_def)


text \<open>The two worked examples of the specification: 24.22 and 17.58.\<close>

lemma bmi_patient_170_70: "bmi exact_pow2 patient_170_70 = Inr (round_to_double (2422 / 100))"
  by (simp add: bmi_def patient_170_70_def exact_pow2_def float_eval)

lemma bmi_patient_160_45: "bmi exact_pow2 patient_160_45 = Inr (round_to_double (1758 / 100))"
  by (simp add: bmi_def patient_160_45_def exact_pow2_def float_eval)

lemma literal_2422: "round_to_double (2422 / 100) = Finite (852165491991511 / 35184372088832)"
  by (simp add: float_eval)

lemma literal_1758: "round_to_double (1758 / 100) = Finite (1237082522643333 / 70368744177664)"
  by (simp add: float_eval)

section \<open>The verdict\<close>

lemma classify_cases:
  "(py_lt b (Finite (37 / 2)) \<longrightarrow> classify b = ''Underweight'') \<and>
   (py_ge b (Finite (37 / 2)) \<and> py_lt b (Finite 25) \<longrightarrow> classify b = ''Normal'') \<and>
   (py_ge b (Finite 25) \<and> py_lt b (Finite 30) \<longrightarrow> classify b = ''Overweight'') \<and>
   (py_ge b (Finite 30) \<longrightarrow> classify b = ''Obese'')"
  by (cases b) (auto simp: classify_def py_ge_def)

text \<open>
  C2.  Whenever the bmi of a patient is computed, the verdict is the step function of
  that bmi: below 18.5 it is Underweight, from 18.5 and below 25 Normal, from 25 and
  below 30 Overweight, from 30 on Obese.
\<close>

theorem verdict_step_function:
  assumes "bmi pw p = Inr b"
  shows "verdict pw p = Inr (classify b) \<and>
   (py_lt b (Finite (37 / 2)) \<longrightarrow> verdict pw p = Inr ''Underweight'') \<and>
   (py_ge b (Finite (37 / 2)) \<and> py_lt b (Finite 25) \<longrightarrow> verdict pw p = Inr ''Normal'') \<and>
   (py_ge b (Finite 25) \<and> py_lt b (Finite 30) \<longrightarrow> verdict pw p = Inr ''Overweight'') \<and>
   (py_ge b (Finite 30) \<longrightarrow> verdict pw p = Inr ''Obese'')"
  using assms classify_cases [of b] by (simp add: verdict_def)

theorem verdict_step_function_witness:
  "bmi exact_pow2 patient_170_70 = Inr (Finite (852165491991511 / 35184372088832)) \<and>
   verdict exact_pow2 patient_170_70 = Inr ''Normal''"
proof -
  have b: "bmi exact_pow2 patient_170_70 = Inr (Finite (852165491991511 / 35184372088832))"
    using bmi_patient_170_70 by (simp only: literal_2422)
  have "py_ge (Finite (852165491991511 / 35184372088832)) (Finite (37 / 2)) \<and>
        py_lt (Finite (852165491991511 / 35184372088832)) (Finite 25)"
    by (simp add: py_ge_def)
  with verdict_step_function [OF b] have "verdict exact_pow2 patient_170_70 = Inr ''Normal''"
    by blast
  with b show ?thesis by simp
qed

section \<open>Creating a patient\<close>

text \<open>
  C8.  Creating a patient whose id is already a key of the store fails with the
  HTTP 400 exception "Patient ID already exists" and leaves the store as it was, in the
  endpoint function and in the endpoint behind FastAPI's validation of the body.
\<close>

theorem create_existing_id_conflict:
  assumes "pid patient \<in> set (map fst data)"
  shows "create_patient_data pw data patient =
           (Inl (HTTPException 400 ''Patient ID already exists''), data) \<and>
         (Patient_validate body = Inr patient \<longrightarrow>
            post_patient pw data body =
              (Inl (HTTPException 400 ''Patient ID already exists''), data))"
  using assms by (simp add: create_patient_data_def post_patient_def)

theorem create_existing_id_conflict_witness:
  "pid patient_170_70 \<in> set (map fst store_1) \<and>
   create_patient_data exact_pow2 store_1 patient_170_70 =
     (Inl (HTTPException 400 ''Patient ID already exists''), store_1)"
proof -
  have k: "pid patient_170_70 \<in> set (map fst store_1)"
    by (simp add: patient_170_70_def store_1_def)
  from create_existing_id_conflict [OF k] show ?thesis
    using k by simp
qed

section \<open>Validation of a new patient\<close>

lemma field_errors_Nil:
  "field_errors k v ok = [] \<longleftrightarrow> (\<exists>x. v = Some x \<and> ok x)"
  by (cases v) (simp_all add: field_errors_def)

lemma Patient_errors_Nil:
  "Patient_errors d = [] \<longleftrightarrow>
     (\<exists>i n c a g h w.
        arg_id d = Some i \<and> arg_name d = Some n \<and> arg_city d = Some c \<and>
        arg_age d = Some a \<and> 0 < a \<and> a < 120 \<and>
        arg_gender d = Some g \<and> g \<in> set [''male'', ''female'', ''others''] \<and>
        arg_height d = Some h \<and> py_gt h (Finite 0) \<and>
        arg_weight d = Some w \<and> py_gt w (Finite 0))"
  unfolding Patient_errors_def append_is_Nil_conv field_errors_Nil by blast

lemma float_pow2_error: "float_pow2 pw x = Inl e \<Longrightarrow> e = OverflowError"
  by (cases x) (auto split: pyfloat.splits if_splits)

lemma float_truediv_error: "float_truediv a b = Inl e \<Longrightarrow> e = ZeroDivisionError"
  by (cases "(a, b)" rule: float_truediv.cases) (auto split: if_splits pyfloat.splits)

lemma bmi_error: "bmi pw p = Inl e \<Longrightarrow> e = OverflowError \<or> e = ZeroDivisionError"
  by (auto simp: bmi_def split: sum.splits dest: float_pow2_error float_truediv_error)

lemma model_dump_error: "model_dump pw p = Inl e \<Longrightarrow> e = OverflowError \<or> e = ZeroDivisionError"
  by (auto simp: model_dump_def verdict_def split: sum.splits dest: bmi_error)

lemma create_not_ValidationError:
  "create_patient_data pw data p \<noteq> (Inl (ValidationError fs), data')"
  by (auto simp: create_patient_data_def split: sum.splits dest: model_dump_error)

text \<open>
  C5, as the code has it.  A request to create a patient is answered with a
  \<^verbatim>\<open>ValidationError\<close> exactly when a field is missing, the age is not strictly between 0
  and 120, the gender is none of male, female and others, the height is not above 0 or
  the weight is not above 0; the error names the offending fields and the store is left
  as it was.  No condition is put on the strings \<^verbatim>\<open>id\<close>, \<^verbatim>\<open>name\<close> and \<^verbatim>\<open>city\<close>: they may be
  empty.
\<close>

theorem post_patient_validation:
  "post_patient pw data body = (Inl (ValidationError fs), data') \<longleftrightarrow>
     (arg_id body = None \<or> arg_name body = None \<or> arg_city body = None \<or>
      (\<forall>a. arg_age body = Some a \<longrightarrow> a \<le> 0 \<or> 120 \<le> a) \<or>
      (\<forall>g. arg_gender body = Some g \<longrightarrow> g \<notin> set [''male'', ''female'', ''others'']) \<or>
      (\<forall>h. arg_height body = Some h \<longrightarrow> \<not> py_gt h (Finite 0)) \<or>
      (\<forall>w. arg_weight body = Some w \<longrightarrow> \<not> py_gt w (Finite 0))) \<and>
     fs = Patient_errors body \<and> data' = data"
proof (cases "Patient_errors body = []")
  case True
  then have "Patient_validate body =
      Inr \<lparr>pid = the (arg_id body), name = the (arg_name body),
           city = the (arg_city body), age = the (arg_age body),
           gender = the (arg_gender body), height = the (arg_height body),
           weight = the (arg_weight body)\<rparr>"
    by (simp add: Patient_validate_def)
  then have "post_patient pw data body \<noteq> (Inl (ValidationError fs), data')"
    by (simp add: post_patient_def create_not_ValidationError)
  moreover from True have
    "\<not> (arg_id body = None \<or> arg_name body = None \<or> arg_city body = None \<or>
      (\<forall>a. arg_age body = Some a \<longrightarrow> a \<le> 0 \<or> 120 \<le> a) \<or>
      (\<forall>g. arg_gender body = Some g \<longrightarrow> g \<notin> set [''male'', ''female'', ''others'']) \<or>
      (\<forall>h. arg_height body = Some h \<longrightarrow> \<not> py_gt h (Finite 0)) \<or>
      (\<forall>w. arg_weight body = Some w \<longrightarrow> \<not> py_gt w (Finite 0)))"
    unfolding Patient_errors_Nil by force
  ultimately show ?thesis by blast
next
  case False
  then have "post_patient pw data body = (Inl (ValidationError (Patient_errors body)), data)"
    by (simp add: post_patient_def Patient_validate_def)
  moreover from False have
    "arg_id body = None \<or> arg_name body = None \<or> arg_city body = None \<or>
      (\<forall>a. arg_age body = Some a \<longrightarrow> a \<le> 0 \<or> 120 \<le> a) \<or>
      (\<forall>g. arg_gender body = Some g \<longrightarrow> g \<notin> set [''male'', ''female'', ''others'']) \<or>
      (\<forall>h. arg_height body = Some h \<longrightarrow> \<not> py_gt h (Finite 0)) \<or>
      (\<forall>w. arg_weight body = Some w \<longrightarrow> \<not> py_gt w (Finite 0))"
    unfolding Patient_errors_Nil
    by (cases "arg_id body"; cases "arg_name body"; cases "arg_city body";
        cases "arg_age body"; cases "arg_gender body"; cases "arg_height body";
        cases "arg_weight body") auto
  ultimately show ?thesis by auto
qed

theorem post_patient_validation_witness:
  "post_patient exact_pow2 store_1 body_age_150 = (Inl (ValidationError [''age'']), store_1)"
proof -
  have "\<forall>a. arg_age body_age_150 = Some a \<longrightarrow> a \<le> 0 \<or> 120 \<le> a"
    by (simp add: body_age_150_def)
  moreover have "Patient_errors body_age_150 = [''age'']"
    by (simp add: body_age_150_def Patient_errors_def field_errors_def py_gt_def)
  ultimately show ?thesis
    unfolding post_patient_validation by simp
qed

text \<open>
  A body whose \<^verbatim>\<open>id\<close>, \<^verbatim>\<open>name\<close> and \<^verbatim>\<open>city\<close> are empty strings is accepted and stored
  (height 2.0 and weight 80.0 give the bmi 20.0).
\<close>

theorem empty_strings_accepted_counterexample:
  "post_patient exact_pow2 [] body_empty_strings =
     (Inr ''Patient data created successfully'',
      [([], \<lparr>info_name = [], info_city = [], info_age = 30, info_gender = ''male'',
             info_height = Finite 2, info_weight = Finite 80, info_bmi = Finite 20,
             info_verdict = ''Normal''\<rparr>)])"
  by (simp add: post_patient_def Patient_validate_def Patient_errors_def field_errors_def
      body_empty_strings_def py_gt_def create_patient_data_def model_dump_def verdict_def
      bmi_def classify_def py_ge_def exact_pow2_def float_eval)

section \<open>What an update can set\<close>

text \<open>
  C6, as the code has it.  A \<^verbatim>\<open>PatientUpdate\<close> that sets one field is valid for every
  name, every city, every age above 0, the genders male and female, every height above
  0 and every weight above 0; it has no field \<^verbatim>\<open>id\<close>.  An update that sets the gender to
  any other string, "others" included, is rejected.
\<close>

theorem patient_update_settable:
  "PatientUpdate_validate (no_update\<lparr>upd_name := Some (Some n)\<rparr>) =
     Inr (no_update\<lparr>upd_name := Some (Some n)\<rparr>) \<and>
   PatientUpdate_validate (no_update\<lparr>upd_city := Some (Some c)\<rparr>) =
     Inr (no_update\<lparr>upd_city := Some (Some c)\<rparr>) \<and>
   (0 < a \<longrightarrow>
      PatientUpdate_validate (no_update\<lparr>upd_age := Some (Some a)\<rparr>) =
        Inr (no_update\<lparr>upd_age := Some (Some a)\<rparr>)) \<and>
   (g = ''male'' \<or> g = ''female'' \<longrightarrow>
      PatientUpdate_validate (no_update\<lparr>upd_gender := Some (Some g)\<rparr>) =
        Inr (no_update\<lparr>upd_gender := Some (Some g)\<rparr>)) \<and>
   (py_gt h (Finite 0) \<longrightarrow>
      PatientUpdate_validate (no_update\<lparr>upd_height := Some (Some h)\<rparr>) =
        Inr (no_update\<lparr>upd_height := Some (Some h)\<rparr>)) \<and>
   (py_gt w (Finite 0) \<longrightarrow>
      PatientUpdate_validate (no_update\<lparr>upd_weight := Some (Some w)\<rparr>) =
        Inr (no_update\<lparr>upd_weight := Some (Some w)\<rparr>)) \<and>
   (g \<noteq> ''male'' \<and> g \<noteq> ''female'' \<longrightarrow>
      PatientUpdate_validate (no_update\<lparr>upd_gender := Some (Some g)\<rparr>) =
        Inl (ValidationError [''gender'']))"
  by (simp add: PatientUpdate_validate_def PatientUpdate_errors_def optional_errors_def
      no_update_def)

theorem patient_update_settable_witness:
  "PatientUpdate_validate (no_update\<lparr>upd_age := Some (Some 45)\<rparr>) =
     Inr (no_update\<lparr>upd_age := Some (Some 45)\<rparr>) \<and>
   PatientUpdate_validate (no_update\<lparr>upd_gender := Some (Some ''female'')\<rparr>) =
     Inr (no_update\<lparr>upd_gender := Some (Some ''female'')\<rparr>) \<and>
   PatientUpdate_validate (no_update\<lparr>upd_height := Some (Some (Finite 2))\<rparr>) =
     Inr (no_update\<lparr>upd_height := Some (Some (Finite 2))\<rparr>)"
  using patient_update_settable [of "[]" "[]" 45 "''female''" "Finite 2" "Finite 2"]
  by (simp add: py_gt_def)

text \<open>
  The gender "others" is admissible for a \<^verbatim>\<open>Patient\<close>, and no valid \<^verbatim>\<open>PatientUpdate\<close> sets
  it.
\<close>

theorem update_gender_others_counterexample:
  "Patient_errors (body_age_150\<lparr>arg_age := Some 50, arg_gender := Some ''others''\<rparr>) = [] \<and>
   PatientUpdate_validate (no_update\<lparr>upd_gender := Some (Some ''others'')\<rparr>) =
     Inl (ValidationError [''gender''])"
  by (simp add: PatientUpdate_validate_def PatientUpdate_errors_def optional_errors_def
      no_update_def Patient_errors_def field_errors_def body_age_150_def py_gt_def)

section \<open>Updating a patient\<close>

lemma bmi_cong: "height p = height q \<Longrightarrow> weight p = weight q \<Longrightarrow> bmi pw p = bmi pw q"
  by (simp add: bmi_def split: sum.splits)

lemma model_dump_Inr:
  "model_dump pw p = Inr r \<longleftrightarrow>
     (\<exists>b. bmi pw p = Inr b \<and>
        r = \<lparr>info_name = name p, info_city = city p, info_age = age p,
             info_gender = gender p, info_height = height p, info_weight = weight p,
             info_bmi = b, info_verdict = classify b\<rparr>)"
  by (auto simp: model_dump_def verdict_def split: sum.splits)

lemma model_dump_derived_ok: "model_dump pw p = Inr r \<Longrightarrow> derived_ok pw r"
proof -
  assume "model_dump pw p = Inr r"
  then obtain b where b: "bmi pw p = Inr b" and r: "info_height r = height p"
    "info_weight r = weight p" "info_bmi r = b" "info_verdict r = classify b"
    by (auto simp: model_dump_Inr)
  have "bmi pw (info_patient [] r) = bmi pw p"
    by (rule bmi_cong) (simp_all add: info_patient_def r)
  with b r show ?thesis by (simp add: derived_ok_def)
qed

lemma Patient_validate_Inr:
  "Patient_validate d = Inr p \<Longrightarrow>
     Patient_errors d = [] \<and> arg_id d = Some (pid p) \<and> arg_name d = Some (name p) \<and>
     arg_city d = Some (city p) \<and> arg_age d = Some (age p) \<and>
     arg_gender d = Some (gender p) \<and> arg_height d = Some (height p) \<and>
     arg_weight d = Some (weight p)"
  by (auto simp: Patient_validate_def Patient_errors_Nil split: if_splits)

lemma validated_constraints:
  assumes "Patient_validate d = Inr p" "model_dump pw p = Inr r"
  shows "constraints_ok r"
proof -
  from assms(1) have e: "Patient_errors d = []" and f: "arg_age d = Some (age p)"
    "arg_gender d = Some (gender p)" "arg_height d = Some (height p)"
    "arg_weight d = Some (weight p)"
    by (auto dest: Patient_validate_Inr)
  from e f have "0 < age p \<and> age p < 120 \<and> gender p \<in> set [''male'', ''female'', ''others''] \<and>
      py_gt (height p) (Finite 0) \<and> py_gt (weight p) (Finite 0)"
    unfolding Patient_errors_Nil by auto
  with assms(2) show ?thesis
    by (auto simp: model_dump_Inr constraints_ok_def)
qed

lemma set_update_subset: "set (AList.update k v al) \<subseteq> insert (k, v) (set al)"
  by (induct al) auto

lemma update_patient_data_cases:
  "update_patient_data pw data u p_id = (res, data') \<Longrightarrow>
     (data' = data \<and> (\<exists>e. res = Inl e)) \<or>
     (\<exists>existing p r. map_of data p_id = Some existing \<and>
        Patient_validate (merge_update existing u p_id) = Inr p \<and> model_dump pw p = Inr r \<and>
        res = Inr ''Patient data updated successfully'' \<and> data' = AList.update p_id r data)"
  by (auto simp: update_patient_data_def split: option.splits sum.splits)

lemma map_of_store_1: "map_of store_1 ''P001'' = Some info_170_70"
  by (simp add: store_1_def)

lemma literal_170: "round_to_double (170 / 100) = Finite (7656119366529843 / 4503599627370496)"
  by (simp add: float_eval)

lemma literal_70: "round_to_double 70 = Finite 70"
  by (simp add: float_eval)

lemma literal_2768: "round_to_double (2768 / 100) = Finite (3895613677675479 / 140737488355328)"
  by (simp add: float_eval)

lemma bmi_170_80:
  "bmi exact_pow2 (patient_170_70\<lparr>weight := Finite 80\<rparr>) = Inr (round_to_double (2768 / 100))"
  by (simp add: bmi_def patient_170_70_def exact_pow2_def float_eval)

lemma derived_ok_info_170_70: "derived_ok exact_pow2 info_170_70"
proof -
  have "bmi exact_pow2 (info_patient [] info_170_70) = bmi exact_pow2 patient_170_70"
    by (rule bmi_cong) (simp_all only: info_patient_def info_170_70_def patient_170_70_def
        Patient.simps patient_info.simps)
  then show ?thesis
    unfolding derived_ok_def bmi_patient_170_70
    by (simp only: info_170_70_def patient_info.simps literal_2422)
      (simp add: classify_def py_ge_def)
qed

lemma constraints_ok_info_170_70: "constraints_ok info_170_70"
  unfolding info_170_70_def literal_170 literal_70
  by (simp add: constraints_ok_def py_gt_def)

text \<open>
  C10.  An update validates the merged record against the constraints of \<^verbatim>\<open>Patient\<close>
  before it stores anything: when the merged record violates a constraint, the update
  fails with the validation error and the store is left as it was; and every record
  that an update leaves in the store was there before or satisfies the constraints, the
  age strictly between 0 and 120 among them.  The same holds behind FastAPI's validation
  of the body, although \<^verbatim>\<open>PatientUpdate\<close> itself accepts any age above 0.
\<close>

theorem update_revalidates:
  "(map_of data p_id = Some existing \<and> Patient_errors (merge_update existing u p_id) \<noteq> [] \<longrightarrow>
      update_patient_data pw data u p_id =
        (Inl (ValidationError (Patient_errors (merge_update existing u p_id))), data)) \<and>
   (\<forall>(k, r) \<in> set (snd (update_patient_data pw data u p_id)). (k, r) \<in> set data \<or> constraints_ok r) \<and>
   (\<forall>(k, r) \<in> set (snd (put_patient_edit pw data u p_id)). (k, r) \<in> set data \<or> constraints_ok r)"
proof -
  have a: "map_of data p_id = Some existing \<and> Patient_errors (merge_update existing u p_id) \<noteq> [] \<longrightarrow>
      update_patient_data pw data u p_id =
        (Inl (ValidationError (Patient_errors (merge_update existing u p_id))), data)"
    by (simp add: update_patient_data_def Patient_validate_def)
  have b: "\<forall>(k, r) \<in> set (snd (update_patient_data pw data u p_id)). (k, r) \<in> set data \<or> constraints_ok r"
  proof -
    obtain res data' where r: "update_patient_data pw data u p_id = (res, data')"
      by (cases "update_patient_data pw data u p_id")
    from update_patient_data_cases [OF r] show ?thesis
    proof
      assume "data' = data \<and> (\<exists>e. res = Inl e)"
      with r show ?thesis by auto
    next
      assume "\<exists>existing p r. map_of data p_id = Some existing \<and>
        Patient_validate (merge_update existing u p_id) = Inr p \<and> model_dump pw p = Inr r \<and>
        res = Inr ''Patient data updated successfully'' \<and> data' = AList.update p_id r data"
      then obtain existing p info where
        v: "Patient_validate (merge_update existing u p_id) = Inr p" and
        m: "model_dump pw p = Inr info" and d: "data' = AList.update p_id info data"
        by blast
      from v m have "constraints_ok info" by (rule validated_constraints)
      with d r set_update_subset [of p_id info data] show ?thesis by auto
    qed
  qed
  have c: "\<forall>(k, r) \<in> set (snd (put_patient_edit pw data u p_id)). (k, r) \<in> set data \<or> constraints_ok r"
    using b by (auto simp: put_patient_edit_def split: sum.splits simp: PatientUpdate_validate_def split: if_splits)
  from a b c show ?thesis by blast
qed

theorem update_revalidates_witness:
  "PatientUpdate_validate update_age_150 = Inr update_age_150 \<and>
   update_patient_data exact_pow2 store_1 update_age_150 ''P001'' =
     (Inl (ValidationError [''age'']), store_1)"
proof -
  have e: "Patient_errors (merge_update info_170_70 update_age_150 ''P001'') = [''age'']"
    unfolding info_170_70_def literal_170 literal_70
    by (simp add: Patient_errors_def field_errors_def merge_update_def overwrite_def
        update_age_150_def no_update_def py_gt_def)
  have "PatientUpdate_validate update_age_150 = Inr update_age_150"
    by (simp add: PatientUpdate_validate_def PatientUpdate_errors_def optional_errors_def
        update_age_150_def no_update_def)
  moreover have "update_patient_data exact_pow2 store_1 update_age_150 ''P001'' =
     (Inl (ValidationError [''age'']), store_1)"
    using update_revalidates [of store_1 "''P001''" info_170_70 update_age_150 exact_pow2]
      map_of_store_1 e by simp
  ultimately show ?thesis by simp
qed

lemma overwrite_merged: "overwrite old v = Some new \<longleftrightarrow> field_merged old v new"
  by (auto simp: overwrite_def field_merged_def split: option.splits)

lemma update_keys_same:
  "map_of al k = Some v \<Longrightarrow> map fst (AList.update k v' al) = map fst al"
  by (simp add: update_keys) (metis map_of_eq_None_iff option.distinct(1) image_set)

lemma derived_ok_model_dump:
  assumes "derived_ok pw r"
  shows "model_dump pw (info_patient p_id r) = Inr r"
proof -
  have "bmi pw (info_patient p_id r) = bmi pw (info_patient [] r)"
    by (rule bmi_cong) (simp_all add: info_patient_def)
  with assms have "bmi pw (info_patient p_id r) = Inr (info_bmi r)"
    and "info_verdict r = classify (info_bmi r)"
    by (simp_all add: derived_ok_def)
  then show ?thesis
    by (simp add: model_dump_def verdict_def info_patient_def)
qed

lemma no_update_validate:
  assumes "constraints_ok r"
  shows "Patient_validate (merge_update r no_update p_id) = Inr (info_patient p_id r)"
  using assms
  by (simp add: Patient_validate_def Patient_errors_def field_errors_def merge_update_def
      overwrite_def no_update_def constraints_ok_def info_patient_def)

text \<open>
  C3, as the code has it.  For a record of the store and an update whose merged record
  passes the validation of \<^verbatim>\<open>Patient\<close> and has a bmi, the update stores under the same
  key a record in which every set field has the value of the update and every unset
  field its old value, with bmi and verdict computed from the merged height and weight;
  the keys of the store and their order do not change.  An update with no field set,
  on a record that satisfies the constraints and whose derived fields are consistent,
  is accepted and leaves the store as it was.
\<close>

theorem update_merges:
  assumes "map_of data p_id = Some existing"
  shows
   "(Patient_validate (merge_update existing u p_id) = Inr p \<and> bmi pw p = Inr b \<longrightarrow>
      (\<exists>r. update_patient_data pw data u p_id =
              (Inr ''Patient data updated successfully'', AList.update p_id r data) \<and>
           field_merged (info_name existing) (upd_name u) (info_name r) \<and>
           field_merged (info_city existing) (upd_city u) (info_city r) \<and>
           field_merged (info_age existing) (upd_age u) (info_age r) \<and>
           field_merged (info_gender existing) (upd_gender u) (info_gender r) \<and>
           field_merged (info_height existing) (upd_height u) (info_height r) \<and>
           field_merged (info_weight existing) (upd_weight u) (info_weight r) \<and>
           info_bmi r = b \<and> bmi pw (info_patient p_id r) = Inr b \<and>
           info_verdict r = classify b \<and>
           map fst (AList.update p_id r data) = map fst data \<and>
           map_of (AList.update p_id r data) = (map_of data)(p_id \<mapsto> r))) \<and>
    (constraints_ok existing \<and> derived_ok pw existing \<longrightarrow>
       put_patient_edit pw data no_update p_id =
         (Inr ''Patient data updated successfully'', data))"
proof (intro conjI impI)
  assume a: "Patient_validate (merge_update existing u p_id) = Inr p \<and> bmi pw p = Inr b"
  define r where "r = \<lparr>info_name = name p, info_city = city p, info_age = age p,
             info_gender = gender p, info_height = height p, info_weight = weight p,
             info_bmi = b, info_verdict = classify b\<rparr>"
  from a have m: "model_dump pw p = Inr r"
    by (simp add: model_dump_Inr r_def)
  from a assms m have u: "update_patient_data pw data u p_id =
      (Inr ''Patient data updated successfully'', AList.update p_id r data)"
    by (simp add: update_patient_data_def)
  from a have f: "arg_name (merge_update existing u p_id) = Some (name p)"
    "arg_city (merge_update existing u p_id) = Some (city p)"
    "arg_age (merge_update existing u p_id) = Some (age p)"
    "arg_gender (merge_update existing u p_id) = Some (gender p)"
    "arg_height (merge_update existing u p_id) = Some (height p)"
    "arg_weight (merge_update existing u p_id) = Some (weight p)"
    by (auto dest: Patient_validate_Inr)
  have g: "field_merged (info_name existing) (upd_name u) (info_name r)"
    "field_merged (info_city existing) (upd_city u) (info_city r)"
    "field_merged (info_age existing) (upd_age u) (info_age r)"
    "field_merged (info_gender existing) (upd_gender u) (info_gender r)"
    "field_merged (info_height existing) (upd_height u) (info_height r)"
    "field_merged (info_weight existing) (upd_weight u) (info_weight r)"
    using f by (simp_all add: merge_update_def r_def flip: overwrite_merged)
  have "bmi pw (info_patient p_id r) = bmi pw p"
    by (rule bmi_cong) (simp_all add: info_patient_def r_def)
  with a have h: "bmi pw (info_patient p_id r) = Inr b" by simp
  have k: "map fst (AList.update p_id r data) = map fst data"
    using assms by (rule update_keys_same)
  have "info_bmi r = b" "info_verdict r = classify b" by (simp_all add: r_def)
  with u g h k show "\<exists>r. update_patient_data pw data u p_id =
              (Inr ''Patient data updated successfully'', AList.update p_id r data) \<and>
           field_merged (info_name existing) (upd_name u) (info_name r) \<and>
           field_merged (info_city existing) (upd_city u) (info_city r) \<and>
           field_merged (info_age existing) (upd_age u) (info_age r) \<and>
           field_merged (info_gender existing) (upd_gender u) (info_gender r) \<and>
           field_merged (info_height existing) (upd_height u) (info_height r) \<and>
           field_merged (info_weight existing) (upd_weight u) (info_weight r) \<and>
           info_bmi r = b \<and> bmi pw (info_patient p_id r) = Inr b \<and>
           info_verdict r = classify b \<and>
           map fst (AList.update p_id r data) = map fst data \<and>
           map_of (AList.update p_id r data) = (map_of data)(p_id \<mapsto> r)"
    by (intro exI [of _ r]) (simp add: update_conv')
next
  assume c: "constraints_ok existing \<and> derived_ok pw existing"
  have "PatientUpdate_validate no_update = Inr no_update"
    by (simp add: PatientUpdate_validate_def PatientUpdate_errors_def optional_errors_def
        no_update_def)
  moreover from c have "Patient_validate (merge_update existing no_update p_id) =
      Inr (info_patient p_id existing)"
    by (simp add: no_update_validate)
  moreover from c have "model_dump pw (info_patient p_id existing) = Inr existing"
    by (simp add: derived_ok_model_dump)
  moreover from assms have "AList.update p_id existing data = data"
    by (rule update_triv)
  ultimately show "put_patient_edit pw data no_update p_id =
         (Inr ''Patient data updated successfully'', data)"
    using assms by (simp add: put_patient_edit_def update_patient_data_def)
qed

theorem update_merges_witness:
  "map_of store_1 ''P001'' = Some info_170_70 \<and>
   update_patient_data exact_pow2 store_1 update_weight_80 ''P001'' =
     (Inr ''Patient data updated successfully'',
      [(''P001'', info_170_70\<lparr>info_weight := Finite 80,
          info_bmi := round_to_double (2768 / 100), info_verdict := ''Overweight''\<rparr>)]) \<and>
   put_patient_edit exact_pow2 store_1 no_update ''P001'' =
     (Inr ''Patient data updated successfully'', store_1)"
proof -
  let ?p = "patient_170_70\<lparr>weight := Finite 80\<rparr>"
  let ?b = "round_to_double (2768 / 100)"
  have v: "Patient_validate (merge_update info_170_70 update_weight_80 ''P001'') = Inr ?p"
    unfolding info_170_70_def patient_170_70_def literal_170 literal_70
    by (simp add: Patient_validate_def Patient_errors_def field_errors_def merge_update_def
        overwrite_def update_weight_80_def no_update_def py_gt_def)
  note t = update_merges [OF map_of_store_1, where u = update_weight_80 and p = ?p and b = ?b
    and pw = exact_pow2]
  from t v bmi_170_80 obtain r where
    u: "update_patient_data exact_pow2 store_1 update_weight_80 ''P001'' =
         (Inr ''Patient data updated successfully'', AList.update ''P001'' r store_1)" and
    f: "field_merged (info_name info_170_70) (upd_name update_weight_80) (info_name r)"
       "field_merged (info_city info_170_70) (upd_city update_weight_80) (info_city r)"
       "field_merged (info_age info_170_70) (upd_age update_weight_80) (info_age r)"
       "field_merged (info_gender info_170_70) (upd_gender update_weight_80) (info_gender r)"
       "field_merged (info_height info_170_70) (upd_height update_weight_80) (info_height r)"
       "field_merged (info_weight info_170_70) (upd_weight update_weight_80) (info_weight r)"
       "info_bmi r = ?b" "info_verdict r = classify ?b"
    by blast
  have c: "classify ?b = ''Overweight''"
    unfolding literal_2768 by (simp add: classify_def py_ge_def)
  from f c have "r = info_170_70\<lparr>info_weight := Finite 80,
          info_bmi := ?b, info_verdict := ''Overweight''\<rparr>"
    by (simp add: field_merged_def update_weight_80_def no_update_def)
  with u have "update_patient_data exact_pow2 store_1 update_weight_80 ''P001'' =
     (Inr ''Patient data updated successfully'',
      [(''P001'', info_170_70\<lparr>info_weight := Finite 80,
          info_bmi := ?b, info_verdict := ''Overweight''\<rparr>)])"
    by (simp add: store_1_def)
  moreover from t constraints_ok_info_170_70 derived_ok_info_170_70
  have "put_patient_edit exact_pow2 store_1 no_update ''P001'' =
     (Inr ''Patient data updated successfully'', store_1)"
    by blast
  ultimately show ?thesis using map_of_store_1 by simp
qed

text \<open>
  An update of the age to 120 is a valid \<^verbatim>\<open>PatientUpdate\<close>; the update is rejected and the
  record keeps its age.
\<close>

theorem update_age_120_counterexample:
  "PatientUpdate_validate update_age_120 = Inr update_age_120 \<and>
   map_of store_1 ''P001'' = Some info_170_70 \<and>
   put_patient_edit exact_pow2 store_1 update_age_120 ''P001'' =
     (Inl (ValidationError [''age'']), store_1)"
proof -
  have e: "Patient_errors (merge_update info_170_70 update_age_120 ''P001'') = [''age'']"
    unfolding info_170_70_def literal_170 literal_70
    by (simp add: Patient_errors_def field_errors_def merge_update_def overwrite_def
        update_age_120_def no_update_def py_gt_def)
  have v: "PatientUpdate_validate update_age_120 = Inr update_age_120"
    by (simp add: PatientUpdate_validate_def PatientUpdate_errors_def optional_errors_def
        update_age_120_def no_update_def)
  from e v show ?thesis
    by (simp add: put_patient_edit_def update_patient_data_def map_of_store_1
        Patient_validate_def)
qed

section \<open>The derived fields in the store\<close>

lemma list_all_update:
  "list_all P al \<Longrightarrow> P (k, v) \<Longrightarrow> list_all P (AList.update k v al)"
  by (induct al) auto

lemma list_all_delete: "list_all P al \<Longrightarrow> list_all P (AList.delete k al)"
  by (induct al) auto

text \<open>What the code computes is what the formula and the brackets of the specification give.\<close>

lemma bmi_spec_bmi:
  assumes "bmi pw p = Inr b"
  shows "spec_bmi pw (height p) (weight p) = Some b"
  using assms by (auto simp: bmi_def spec_bmi_def split: sum.splits)

lemma spec_verdict_ok_classify: "spec_verdict_ok b (classify b)"
  by (cases b) (auto simp: classify_def py_ge_def)

lemma model_dump_spec_derived:
  assumes "model_dump pw p = Inr r"
  shows "spec_derived pw r"
proof -
  from assms obtain b where b: "bmi pw p = Inr b" and r: "info_height r = height p"
    "info_weight r = weight p" "info_bmi r = b" "info_verdict r = classify b"
    by (auto simp: model_dump_Inr)
  from b have "spec_bmi pw (height p) (weight p) = Some b" by (rule bmi_spec_bmi)
  with r show ?thesis by (simp add: spec_derived_def spec_verdict_ok_classify)
qed

lemma store_inv_create:
  assumes "store_inv pw data"
  shows "store_inv pw (snd (create_patient_data pw data p))"
  using assms
  by (auto simp: create_patient_data_def store_inv_def split: sum.splits
      intro!: list_all_update dest: model_dump_spec_derived)

lemma store_inv_update:
  assumes "store_inv pw data"
  shows "store_inv pw (snd (update_patient_data pw data u p_id))"
  using assms
  by (auto simp: update_patient_data_def store_inv_def split: sum.splits option.splits
      intro!: list_all_update dest: model_dump_spec_derived)

lemma store_inv_delete:
  assumes "store_inv pw data"
  shows "store_inv pw (snd (delete_patient_data data p_id))"
  using assms
  by (auto simp: delete_patient_data_def store_inv_def intro!: list_all_delete)

lemma store_inv_serve:
  assumes "store_inv pw data"
  shows "store_inv pw (serve pw data req)"
proof (cases req)
  case (Post body)
  with assms store_inv_create show ?thesis
    by (auto simp: post_patient_def split: sum.splits)
next
  case (Put p_id body)
  with assms store_inv_update show ?thesis
    by (auto simp: put_patient_edit_def split: sum.splits)
next
  case (Delete p_id)
  with assms store_inv_delete show ?thesis by simp
qed

lemma store_inv_requests:
  assumes "store_inv pw data"
  shows "store_inv pw (foldl (serve pw) data reqs)"
  using assms by (induction reqs arbitrary: data) (simp_all add: store_inv_serve)

text \<open>
  The record of the first worked example, and the record that the code stores for the
  height 1.2704 and the weight 48.4094152192 when \<^verbatim>\<open>pow\<close> returns the float below the
  nearest one: its bmi is 30.0 and its verdict Obese.
\<close>

lemma spec_derived_info_170_70: "spec_derived exact_pow2 info_170_70"
proof -
  from bmi_patient_170_70
  have "spec_bmi exact_pow2 (height patient_170_70) (weight patient_170_70) =
      Some (round_to_double (2422 / 100))"
    by (rule bmi_spec_bmi)
  then have "spec_bmi exact_pow2 (info_height info_170_70) (info_weight info_170_70) =
      Some (info_bmi info_170_70)"
    by (simp only: info_170_70_def patient_170_70_def Patient.simps patient_info.simps)
  moreover have "spec_verdict_ok (info_bmi info_170_70) (info_verdict info_170_70)"
    by (simp only: info_170_70_def patient_info.simps literal_2422) simp
  ultimately show ?thesis by (simp only: spec_derived_def simp_thms)
qed

lemma post_patient_12704:
  "post_patient pow_1ulp [] body_12704 =
     (Inr ''Patient data created successfully'', [(''P005'', info_12704)])"
  by (simp add: post_patient_def Patient_validate_def Patient_errors_def field_errors_def
      body_12704_def info_12704_def py_gt_def create_patient_data_def model_dump_def
      verdict_def bmi_def classify_def py_ge_def pow_1ulp_def float_eval)

text \<open>
  C4.  On a store in which every record satisfies the derived-field invariant of the
  specification (the empty store among them), after a create, an update or a delete,
  and after every sequence of such requests, every record of the store satisfies it: its
  bmi is \<^verbatim>\<open>round(weight / height^2, 2)\<close> of its height and weight, and its verdict is the
  one of the bracket of the specification in which its bmi lies.
\<close>

theorem derived_fields_invariant:
  assumes "store_inv pw data"
  shows "store_inv pw (snd (create_patient_data pw data patient)) \<and>
         store_inv pw (snd (update_patient_data pw data patient_update p_id)) \<and>
         store_inv pw (snd (delete_patient_data data p_id)) \<and>
         store_inv pw (foldl (serve pw) data reqs)"
  using assms
  by (simp add: store_inv_create store_inv_update store_inv_delete store_inv_requests)

theorem derived_fields_invariant_witness:
  "store_inv exact_pow2 store_1 \<and>
   store_inv exact_pow2 (foldl (serve exact_pow2) store_1
     [Post (body_age_150\<lparr>arg_age := Some 50\<rparr>), Put ''P001'' update_weight_80,
      Delete ''P003'']) \<and>
   store_inv pow_1ulp [] \<and>
   foldl (serve pow_1ulp) [] [Post body_12704] = [(''P005'', info_12704)] \<and>
   store_inv pow_1ulp [(''P005'', info_12704)] \<and>
   spec_bmi pow_1ulp (info_height info_12704) (info_weight info_12704) = Some (Finite 30) \<and>
   info_verdict info_12704 = ''Obese''"
proof -
  have s: "store_inv exact_pow2 store_1"
    by (simp add: store_inv_def store_1_def spec_derived_info_170_70)
  from derived_fields_invariant [OF s] have a:
    "store_inv exact_pow2 (foldl (serve exact_pow2) store_1
       [Post (body_age_150\<lparr>arg_age := Some 50\<rparr>), Put ''P001'' update_weight_80,
        Delete ''P003''])"
    by blast
  have e: "store_inv pow_1ulp []" by (simp add: store_inv_def)
  have f: "foldl (serve pow_1ulp) [] [Post body_12704] = [(''P005'', info_12704)]"
    by (simp add: post_patient_12704)
  from derived_fields_invariant [OF e]
  have "store_inv pow_1ulp (foldl (serve pow_1ulp) [] [Post body_12704])"
    by blast
  then have i: "store_inv pow_1ulp [(''P005'', info_12704)]" by (simp only: f)
  then have "spec_bmi pow_1ulp (info_height info_12704) (info_weight info_12704) =
      Some (info_bmi info_12704)"
    by (simp add: store_inv_def spec_derived_def)
  then have b: "spec_bmi pow_1ulp (info_height info_12704) (info_weight info_12704) =
      Some (Finite 30)"
    by (simp add: info_12704_def)
  have v: "info_verdict info_12704 = ''Obese''" by (simp add: info_12704_def)
  from s a e f i b v show ?thesis by (simp only: simp_thms)
qed

text \<open>
  Every store that requests build from the empty one has distinct keys, and its records
  satisfy the constraints of \<^verbatim>\<open>Patient\<close> and the derived-field invariant.
\<close>

lemma store_ok_serve:
  assumes "store_ok pw data"
  shows "store_ok pw (serve pw data req)"
proof -
  let ?P = "\<lambda>(k, r). constraints_ok r \<and> derived_ok pw r"
  from assms have d: "distinct (map fst data)" and a: "list_all ?P data"
    by (simp_all add: store_ok_def)
  show ?thesis
  proof (cases req)
    case (Post body)
    show ?thesis
    proof (cases "post_patient pw data body")
      case (Pair res data')
      then consider "data' = data" |
        p r where "Patient_validate body = Inr p" "model_dump pw p = Inr r"
          "data' = AList.update (pid p) r data"
        by (auto simp: post_patient_def create_patient_data_def split: sum.splits if_splits)
      then show ?thesis
      proof cases
        case 1
        with Post Pair assms show ?thesis by simp
      next
        case 2
        then have "?P (pid p, r)"
          by (auto dest: validated_constraints model_dump_derived_ok)
        with a have "list_all ?P (AList.update (pid p) r data)" by (rule list_all_update)
        with d 2 Post Pair show ?thesis by (simp add: store_ok_def distinct_update)
      qed
    qed
  next
    case (Put p_id body)
    show ?thesis
    proof (cases "put_patient_edit pw data body p_id")
      case (Pair res data')
      then consider "data' = data" |
        existing p r where "Patient_validate (merge_update existing body p_id) = Inr p"
          "model_dump pw p = Inr r" "data' = AList.update p_id r data"
        by (auto simp: put_patient_edit_def PatientUpdate_validate_def
            dest!: update_patient_data_cases split: sum.splits if_splits)
      then show ?thesis
      proof cases
        case 1
        with Put Pair assms show ?thesis by simp
      next
        case 2
        then have "?P (p_id, r)"
          by (auto dest: validated_constraints model_dump_derived_ok)
        with a have "list_all ?P (AList.update p_id r data)" by (rule list_all_update)
        with d 2 Put Pair show ?thesis by (simp add: store_ok_def distinct_update)
      qed
    qed
  next
    case (Delete p_id)
    with d a show ?thesis
      by (auto simp: store_ok_def delete_patient_data_def distinct_delete intro: list_all_delete)
  qed
qed

lemma store_ok_reachable: "store_ok pw (foldl (serve pw) [] reqs)"
proof -
  have "store_ok pw data \<Longrightarrow> store_ok pw (foldl (serve pw) data reqs)" for data
    by (induction reqs arbitrary: data) (simp_all add: store_ok_serve)
  then show ?thesis by (simp add: store_ok_def)
qed

text \<open>In such a store no height and no weight is NaN.\<close>

lemma reachable_no_NaN:
  "list_all (\<lambda>(k, r). info_height r \<noteq> NaN) (foldl (serve pw) [] reqs)"
  "list_all (\<lambda>(k, r). info_weight r \<noteq> NaN) (foldl (serve pw) [] reqs)"
  using store_ok_reachable [of pw reqs]
  by (auto simp: store_ok_def list_all_iff constraints_ok_def py_gt_def)

section \<open>Sorting the patients\<close>




lemma mset_insort_lt: "mset (insort_lt f x ys) = add_mset x (mset ys)"
  by (induction ys) simp_all

lemma mset_stable_sort: "mset (stable_sort f xs) = mset xs"
  by (induction xs) (simp_all add: stable_sort_def mset_insort_lt)





lemma set_stable_sort: "set (stable_sort f xs) = set xs"
  using mset_stable_sort [of f xs] by (metis set_mset_mset)










section \<open>The bmi at the ends of the float range\<close>

lemma ilog2_le:
  assumes "0 < a" "a < 1 / 2 ^ n"
  shows "ilog2 a \<le> - int n"
proof -
  have "1 / 2 ^ n \<le> (1::rat)" by simp
  with assms(2) have a1: "a < 1" by (rule less_le_trans)
  have "2 ^ n < 1 / a"
    using assms by (simp add: field_simps)
  also have "1 / a \<le> of_int \<lceil>1 / a\<rceil>" by simp
  finally have "of_int (2 ^ n) < (of_int \<lceil>1 / a\<rceil> :: rat)" by simp
  then have "(2::int) ^ n < \<lceil>1 / a\<rceil>"
    by (simp only: of_int_less_iff)
  moreover have "nat (int n + 1) - 1 = n" by simp
  ultimately have "(2::int) ^ (nat (int n + 1) - 1) \<le> \<lceil>1 / a\<rceil> - 1"
    by (simp only:)
  then have "int n + 1 \<le> bitlen (\<lceil>1 / a\<rceil> - 1)"
    by (simp only: bitlen_ge_iff_power) simp
  with a1 show ?thesis by (simp add: ilog2_def)
qed

lemma round_to_double_underflow:
  assumes "0 < x" "x < pow2 (- 1075)"
  shows "round_to_double x = Finite 0"
proof -
  define c :: rat where "c = 2 ^ 1074"
  have c: "0 < c" by (simp add: c_def)
  have u: "pow2 (- 1074) = 1 / c" by (simp add: pow2_def c_def)
  have p: "pow2 (- 1075) = 1 / (2 * c)" by (simp add: pow2_def c_def)
  have "x < 1 / 2 ^ 1075" using assms(2) by (simp add: pow2_def)
  then have "ilog2 x \<le> - int 1075" using assms(1) by (rule ilog2_le [rotated])
  then have e: "max (ilog2 x) (- 1022) = - 1022"
    by simp
  have q: "0 \<le> x * c" "x * c < 1 / 2"
    using assms c unfolding p by (simp_all add: field_simps)
  then have f: "\<lfloor>x * c\<rfloor> = 0" by (simp add: floor_eq_iff)
  have r: "round_half_even (x * c) = 0"
    using q by (simp add: round_half_even_def f)
  show ?thesis
    using assms(1) by (simp add: round_to_double_def Let_def e u r pow2_pos not_le)
qed

lemma float_pow2_underflow:
  assumes "0 < q" "q < pow2 (- 538)"
  shows "float_pow2 exact_pow2 (Finite q) = Inr (Finite 0)"
proof -
  define d :: rat where "d = 2 ^ 538"
  have d: "0 < d" by (simp add: d_def)
  have "(2::rat) ^ 1075 < 2 ^ 1076" by (rule power_strict_increasing) simp_all
  also have "\<dots> = d * d" by (simp add: d_def flip: power_add)
  finally have "1 / (d * d) < pow2 (- 1075)"
    using d by (simp add: pow2_def field_simps)
  moreover have "q < 1 / d" using assms(2) by (simp add: pow2_def d_def)
  then have "q * q < (1 / d) * (1 / d)"
    using assms(1) d by (intro mult_strict_mono) simp_all
  ultimately have "q * q < pow2 (- 1075)" by simp
  moreover have "0 < q * q" using assms(1) by simp
  ultimately have "round_to_double (q * q) = Finite 0"
    by (intro round_to_double_underflow)
  moreover have "1 / d \<le> 1" by (simp add: d_def)
  with \<open>q < 1 / d\<close> have "q < 1" by (rule less_le_trans)
  ultimately show ?thesis using assms(1) by (simp add: exact_pow2_def)
qed

lemma literal_1e_200: "round_to_double (1 / 10 ^ 200) = Finite (1723641332219371 /
   172364133221937103085272756482216056112753534658909761028039668631756215232006744379020625060744018369805777923479247838020220755974022884986972234404720831691332769255536872593544438018353486799545737272878084128768)"
  by (simp add: float_eval)

lemma bmi_underflow:
  assumes "height p = Finite q" "0 < q" "q < pow2 (- 538)"
  shows "bmi exact_pow2 p = Inl ZeroDivisionError"
proof -
  from assms have "float_pow2 exact_pow2 (height p) = Inr (Finite 0)"
    by (simp only: float_pow2_underflow)
  then show ?thesis by (simp add: bmi_def)
qed

text \<open>
  In the other direction: for every height from \<open>2\<^sup>-\<^sup>5\<^sup>1\<^sup>1\<close> up to \<open>2\<^sup>5\<^sup>1\<^sup>1\<close> and every weight the
  bmi is computed.
\<close>

lemma pow2_powi: "pow2 k = 2 powi k"
  by (simp add: pow2_def power_int_def power_one_over inverse_eq_divide)

lemma ilog2_bounds:
  assumes "0 < a"
  shows "pow2 (ilog2 a) \<le> a \<and> a < pow2 (ilog2 a + 1)"
proof (cases "1 \<le> a")
  case True
  define n where "n = \<lfloor>a\<rfloor>"
  from True have n: "1 \<le> n" by (simp add: n_def le_floor_iff)
  then have "0 < n" by simp
  from bitlen_bounds [OF this] have b: "2 ^ nat (bitlen n - 1) \<le> n" "n < 2 ^ nat (bitlen n)"
    by simp_all
  from \<open>0 < n\<close> have p: "1 \<le> bitlen n"
    using bitlen_eq_zero_iff [of n] bitlen_nonneg [of n] by linarith
  have i: "ilog2 a = bitlen n - 1" using True by (simp add: ilog2_def n_def)
  have "of_int (2 ^ nat (bitlen n - 1)) \<le> (of_int n :: rat)"
    using b(1) by (simp only: of_int_le_iff)
  also have "of_int n \<le> a" by (simp add: n_def)
  finally have l: "pow2 (ilog2 a) \<le> a"
    using p by (simp add: i pow2_def)
  have "a < of_int (n + 1)" unfolding n_def by linarith
  also have "of_int (n + 1) \<le> (of_int (2 ^ nat (bitlen n)) :: rat)"
    using b(2) by (simp only: of_int_le_iff)
  finally have "a < pow2 (ilog2 a + 1)"
    using p by (simp add: i pow2_def)
  with l show ?thesis by simp
next
  case False
  define c where "c = \<lceil>1 / a\<rceil>"
  define n where "n = c - 1"
  from False assms have "1 < 1 / a" by (simp add: field_simps)
  then have "1 < c" unfolding c_def by (simp add: less_ceiling_iff)
  then have "0 < n" by (simp add: n_def)
  from bitlen_bounds [OF this] have b: "2 ^ nat (bitlen n - 1) \<le> n" "n < 2 ^ nat (bitlen n)"
    by simp_all
  from \<open>0 < n\<close> have p: "1 \<le> bitlen n"
    using bitlen_eq_zero_iff [of n] bitlen_nonneg [of n] by linarith
  have i: "ilog2 a = - bitlen n" using False by (simp add: ilog2_def n_def c_def)
  have "1 / a \<le> of_int c" by (simp add: c_def)
  also have "of_int c \<le> (of_int (2 ^ nat (bitlen n)) :: rat)"
    using b(2) by (simp only: of_int_le_iff) (simp add: n_def)
  finally have "1 / a \<le> 2 ^ nat (bitlen n)" by simp
  then have "1 / 2 ^ nat (bitlen n) \<le> a"
    using assms by (simp add: field_simps)
  then have l: "pow2 (ilog2 a) \<le> a"
    using p by (simp add: i pow2_def)
  have "(of_int (2 ^ nat (bitlen n - 1)) :: rat) \<le> of_int n"
    using b(1) by (simp only: of_int_le_iff)
  also have "of_int n < 1 / a"
    unfolding n_def c_def by (simp add: ceiling_correct)
  finally have "2 ^ nat (bitlen n - 1) < 1 / a" by simp
  then have u: "a < 1 / 2 ^ nat (bitlen n - 1)"
    using assms by (simp add: field_simps)
  have "pow2 (ilog2 a + 1) = 1 / 2 ^ nat (bitlen n - 1)"
    using p by (auto simp: i pow2_def)
  with u l show ?thesis by simp
qed


lemma round_half_even_ge:
  assumes "of_int k \<le> x"
  shows "k \<le> round_half_even x"
proof -
  from assms have "k \<le> \<lfloor>x\<rfloor>" by (simp add: le_floor_iff)
  then show ?thesis by (simp add: round_half_even_def Let_def)
qed

lemma round_half_even_le:
  assumes "x \<le> of_int k"
  shows "round_half_even x \<le> k"
proof (cases "x = of_int \<lfloor>x\<rfloor>")
  case True
  then have "round_half_even x = \<lfloor>x\<rfloor>" by (simp add: round_half_even_def Let_def)
  moreover from assms have "\<lfloor>x\<rfloor> \<le> k" by (simp add: floor_le_iff)
  ultimately show ?thesis by simp
next
  case False
  moreover have "of_int \<lfloor>x\<rfloor> \<le> x" by (rule of_int_floor_le)
  ultimately have "of_int \<lfloor>x\<rfloor> < x" by linarith
  with assms have "(of_int \<lfloor>x\<rfloor> :: rat) < of_int k" by simp
  then have "\<lfloor>x\<rfloor> < k" by (simp only: of_int_less_iff)
  then show ?thesis by (simp add: round_half_even_def Let_def)
qed

lemma powi2_less_imp:
  assumes "(2::rat) powi a < 2 powi b"
  shows "a < b"
proof (rule ccontr)
  assume "\<not> a < b"
  then have "b \<le> a" by simp
  then have "(2::rat) powi b \<le> 2 powi a" by (intro power_int_increasing) simp_all
  with assms show False by simp
qed

lemma round_to_double_normal:
  assumes "pow2 (- 1022) \<le> x" "x < pow2 1023"
  shows "\<exists>y. round_to_double x = Finite y \<and> 0 < y"
proof -
  from assms(1) have x: "0 < x" using pow2_pos [of "- 1022"] by simp
  define e where "e = ilog2 x"
  from ilog2_bounds [OF x] have b: "2 powi e \<le> x" "x < 2 powi (e + 1)"
    by (simp_all add: e_def pow2_powi)
  from assms(1) b(2) have "(2::rat) powi (- 1022) < 2 powi (e + 1)" by (simp add: pow2_powi)
  then have e1: "- 1022 \<le> e" using powi2_less_imp [of "- 1022" "e + 1"] by simp
  from assms(2) b(1) have "(2::rat) powi e < 2 powi 1023" by (simp add: pow2_powi)
  then have e2: "e \<le> 1022" using powi2_less_imp [of e 1023] by simp
  define ulp :: rat where "ulp = 2 powi (e - 52)"
  have u: "0 < ulp" by (simp add: ulp_def)
  have s: "ulp * 2 ^ 52 = 2 powi e" "ulp * 2 ^ 53 = 2 powi (e + 1)"
    by (simp_all add: ulp_def power_int_diff power_int_add)
  from b s u have "2 ^ 52 \<le> x / ulp" "x / ulp \<le> 2 ^ 53"
    by (simp_all add: field_simps)
  then have q: "of_int (2 ^ 52) \<le> x / ulp" "x / ulp \<le> of_int (2 ^ 53)" by simp_all
  have r: "2 ^ 52 \<le> round_half_even (x / ulp)" "round_half_even (x / ulp) \<le> 2 ^ 53"
    using q(1) round_half_even_ge apply blast
    using q(2) round_half_even_le apply blast
    done
  define m where "m = of_int (round_half_even (x / ulp)) * ulp"
  from r(1) have "(2 ^ 52 :: rat) \<le> of_int (round_half_even (x / ulp))"
    by (metis of_int_le_iff of_int_numeral of_int_power)
  with u have "0 < m" by (simp add: m_def)
  from r(2) have "of_int (round_half_even (x / ulp)) \<le> (2 ^ 53 :: rat)"
    by (metis of_int_le_iff of_int_numeral of_int_power)
  with u have "m \<le> 2 ^ 53 * ulp" by (simp add: m_def)
  also have "\<dots> = 2 powi (e + 1)" using s(2) by (simp add: mult.commute)
  also have "\<dots> \<le> 2 powi 1023" using e2 by (intro power_int_increasing) simp_all
  also have "\<dots> < (2::rat) powi 1024" by (intro power_int_strict_increasing) simp_all
  finally have "\<not> pow2 1024 \<le> m" by (simp add: pow2_powi)
  with x e1 \<open>0 < m\<close> show ?thesis
    by (simp add: round_to_double_def Let_def max_absorb1 pow2_powi
        flip: e_def ulp_def m_def)
qed


lemma float_pow2_normal:
  assumes "pow2 (- 511) \<le> q" "q < pow2 511"
  shows "\<exists>y. float_pow2 exact_pow2 (Finite q) = Inr (Finite y) \<and> 0 < y"
proof -
  from assms(1) have q: "0 < q" using pow2_pos [of "- 511"] by simp
  have "pow2 (- 1022) = pow2 (- 511) * pow2 (- 511)"
    by (simp add: pow2_powi flip: power_int_add)
  also have "\<dots> \<le> q * q"
    using assms(1) pow2_pos [of "- 511"] by (intro mult_mono) simp_all
  finally have l: "pow2 (- 1022) \<le> q * q" .
  have "q * q < pow2 511 * pow2 511"
    using assms(2) q by (intro mult_strict_mono) simp_all
  also have "\<dots> = 2 powi 1022"
    by (simp add: pow2_powi flip: power_int_add)
  also have "\<dots> < (2::rat) powi 1023"
    by (intro power_int_strict_increasing) simp_all
  finally have "q * q < pow2 1023" by (simp add: pow2_powi)
  with l obtain y where "round_to_double (q * q) = Finite y" "0 < y"
    using round_to_double_normal by blast
  with q show ?thesis by (simp add: exact_pow2_def)
qed

lemma float_truediv_nonzero:
  assumes "y \<noteq> 0"
  shows "\<exists>r. float_truediv w (Finite y) = Inr r"
  using assms by (cases w) simp_all

lemma bmi_total_on_range:
  assumes "height p = Finite q" "pow2 (- 511) \<le> q" "q < pow2 511"
  shows "\<exists>b. bmi exact_pow2 p = Inr b"
proof -
  from float_pow2_normal [OF assms(2,3)] obtain y where
    y: "float_pow2 exact_pow2 (height p) = Inr (Finite y)" "0 < y"
    using assms(1) by auto
  from float_truediv_nonzero [of y "weight p"] y(2) obtain r where
    "float_truediv (weight p) (Finite y) = Inr r" by auto
  with y(1) show ?thesis by (simp add: bmi_def)
qed

text \<open>
  C1.  The height \<^verbatim>\<open>1e-200\<close> is above 0 and passes the validation of \<^verbatim>\<open>Patient\<close>; its square
  underflows to \<^verbatim>\<open>0.0\<close>, so the bmi is not computed: the division raises
  \<^verbatim>\<open>ZeroDivisionError\<close>, and the request to create the patient fails with it.
\<close>

theorem bmi_tiny_height_raises:
  "Patient_errors body_tiny_height = [] \<and>
   bmi exact_pow2 \<lparr>pid = ''P004'', name = ''Tara'', city = ''Agra'', age = 30, gender = ''female'',
        height = round_to_double (1 / 10 ^ 200), weight = Finite 70\<rparr> =
     Inl ZeroDivisionError \<and>
   post_patient exact_pow2 store_1 body_tiny_height = (Inl ZeroDivisionError, store_1)"
proof -
  let ?p = "\<lparr>pid = ''P004'', name = ''Tara'', city = ''Agra'', age = 30, gender = ''female'',
        height = round_to_double (1 / 10 ^ 200), weight = Finite 70\<rparr>"
  have e: "Patient_errors body_tiny_height = []"
    unfolding body_tiny_height_def literal_1e_200
    by (simp add: Patient_errors_def field_errors_def py_gt_def)
  then have v: "Patient_validate body_tiny_height = Inr ?p"
    by (simp add: Patient_validate_def) (simp add: body_tiny_height_def)
  have b: "bmi exact_pow2 ?p = Inl ZeroDivisionError"
    by (rule bmi_underflow [where q = "1723641332219371 /
   172364133221937103085272756482216056112753534658909761028039668631756215232006744379020625060744018369805777923479247838020220755974022884986972234404720831691332769255536872593544438018353486799545737272878084128768"])
      (simp only: Patient.simps literal_1e_200, simp_all add: pow2_def)
  from v b have "post_patient exact_pow2 store_1 body_tiny_height = (Inl ZeroDivisionError, store_1)"
    by (simp add: post_patient_def create_patient_data_def model_dump_def store_1_def)
  with e b show ?thesis by simp
qed

section \<open>Saving and reloading the store\<close>




















end
